theory Spec2Isabelle
  imports Main
begin

section \<open>The null evaluator (src/evaluation/NullEvaluator.cpp)\<close>

text \<open>
  \<^verbatim>\<open>NullEvaluator\<close> implements the \<^verbatim>\<open>Evaluator\<close> interface with bodies that do
  nothing. The embedding follows the translation unit member by member:
  \<^item> a member function takes the program state and returns its outcome together with the
    state it leaves behind;
  \<^item> the program state is a type parameter \<open>'st\<close>: the members of the object (declared in
    \<^verbatim>\<open>NullEvaluator.h\<close> and in the base class, neither of which is part of the
    translation unit) and all other memory. No body reads or writes any of it;
  \<^item> an outcome is \<open>error + 'a\<close>: \<open>Inl\<close> for a thrown exception, \<open>Inr\<close> for a normal
    return;
  \<^item> \<^verbatim>\<open>const Instance&\<close> and \<^verbatim>\<open>double[]\<close> are type parameters \<open>'inst\<close> and
    \<open>'scores\<close>: both arguments are unnamed in the source and never inspected.
\<close>

subsection \<open>Values\<close>

text \<open>A \<^verbatim>\<open>Measures*\<close>: the null pointer, or the address of a \<^verbatim>\<open>Measures\<close> object.\<close>

datatype Measures_ptr = nullptr | Ptr nat

text \<open>
  The objects a store holds, by address. \<open>deref h p\<close> is the object \<^verbatim>\<open>*p\<close> designates
  in the store \<open>h\<close>; the null pointer designates none.
\<close>

type_synonym 'm store = "nat \<rightharpoonup> 'm"

fun deref :: "'m store \<Rightarrow> Measures_ptr \<Rightarrow> 'm option" where
  "deref h nullptr = None"
| "deref h (Ptr a) = h a"

text \<open>A thrown exception, with its message.\<close>

datatype error = Exception string

subsection \<open>Member functions\<close>

text \<open>\<^verbatim>\<open>NullEvaluator::NullEvaluator() { }\<close>\<close>

definition NullEvaluator_ctor :: "'st \<Rightarrow> (error + unit) \<times> 'st" where
  "NullEvaluator_ctor \<sigma> = (Inr (), \<sigma>)"

text \<open>\<^verbatim>\<open>NullEvaluator::~NullEvaluator() { }\<close>\<close>

definition NullEvaluator_dtor :: "'st \<Rightarrow> (error + unit) \<times> 'st" where
  "NullEvaluator_dtor \<sigma> = (Inr (), \<sigma>)"

text \<open>\<^verbatim>\<open>void NullEvaluator::addResult(const Instance&, double[]) { return; }\<close>\<close>

definition addResult :: "'inst \<Rightarrow> 'scores \<Rightarrow> 'st \<Rightarrow> (error + unit) \<times> 'st" where
  "addResult inst scores \<sigma> = (Inr (), \<sigma>)"

text \<open>\<^verbatim>\<open>Measures* NullEvaluator::getMeasures() { return nullptr; }\<close>\<close>

definition getMeasures :: "'st \<Rightarrow> (error + Measures_ptr) \<times> 'st" where
  "getMeasures \<sigma> = (Inr nullptr, \<sigma>)"

text \<open>\<^verbatim>\<open>string NullEvaluator::toString() { return " "; }\<close>\<close>

definition toString :: "'st \<Rightarrow> (error + string) \<times> 'st" where
  "toString \<sigma> = (Inr '' '', \<sigma>)"

subsection \<open>Callers\<close>

text \<open>
  A caller holds an object and calls its public member functions one after the other.
  \<open>invoke\<close> dispatches one call; \<open>run\<close> performs a list of calls and stops at the first
  exception, as the unwinding caller would.
\<close>

datatype ('inst, 'scores) call = AddResult 'inst 'scores | GetMeasures | ToString

datatype retval = Void | MeasuresPtr Measures_ptr | Str string

fun invoke :: "('inst, 'scores) call \<Rightarrow> 'st \<Rightarrow> (error + retval) \<times> 'st" where
  "invoke (AddResult inst scores) \<sigma> =
     (case addResult inst scores \<sigma> of
        (Inl e, \<sigma>') \<Rightarrow> (Inl e, \<sigma>')
      | (Inr _, \<sigma>') \<Rightarrow> (Inr Void, \<sigma>'))"
| "invoke GetMeasures \<sigma> =
     (case getMeasures \<sigma> of
        (Inl e, \<sigma>') \<Rightarrow> (Inl e, \<sigma>')
      | (Inr p, \<sigma>') \<Rightarrow> (Inr (MeasuresPtr p), \<sigma>'))"
| "invoke ToString \<sigma> =
     (case toString \<sigma> of
        (Inl e, \<sigma>') \<Rightarrow> (Inl e, \<sigma>')
      | (Inr s, \<sigma>') \<Rightarrow> (Inr (Str s), \<sigma>'))"

fun run :: "('inst, 'scores) call list \<Rightarrow> 'st \<Rightarrow> error + 'st" where
  "run [] \<sigma> = Inr \<sigma>"
| "run (c # cs) \<sigma> =
     (case invoke c \<sigma> of
        (Inl e, _) \<Rightarrow> Inl e
      | (Inr _, \<sigma>') \<Rightarrow> run cs \<sigma>')"

text \<open>
  The scenario of the specification: construct the evaluator, add three results, ask for
  the measures, then for the string. It yields the pointer and the string obtained, or
  the first exception.
\<close>

definition scenario ::
  "'inst \<Rightarrow> 'scores \<Rightarrow> 'inst \<Rightarrow> 'scores \<Rightarrow> 'inst \<Rightarrow> 'scores \<Rightarrow> 'st
     \<Rightarrow> error + Measures_ptr \<times> string" where
  "scenario i1 s1 i2 s2 i3 s3 \<sigma> =
     (case NullEvaluator_ctor \<sigma> of
        (Inl e, _) \<Rightarrow> Inl e
      | (Inr _, \<sigma>0) \<Rightarrow>
     (case run [AddResult i1 s1, AddResult i2 s2, AddResult i3 s3] \<sigma>0 of
        Inl e \<Rightarrow> Inl e
      | Inr \<sigma>3 \<Rightarrow>
     (case getMeasures \<sigma>3 of
        (Inl e, _) \<Rightarrow> Inl e
      | (Inr p, \<sigma>4) \<Rightarrow>
     (case toString \<sigma>4 of
        (Inl e, _) \<Rightarrow> Inl e
      | (Inr s, _) \<Rightarrow> Inr (p, s)))))"

subsection \<open>Registration\<close>

text \<open>
  Modelled from the spec: the macros \<^verbatim>\<open>REGISTER_CLASS\<close> and
  \<^verbatim>\<open>REGISTER_COMMAND_LINE_PARAMETER\<close> come from \<^verbatim>\<open>Common.h\<close>, which is not part
  of the translation unit. The specification describes what they do: the class registers
  itself with a global factory keyed by its name string (a mapping from name strings to
  factory functions), together with a schema string declaring its command-line
  parameters. The macro argument \<^verbatim>\<open>NullEvaluator\<close> names the class: it stands for the
  name string and for the constructor a factory of the class runs.
\<close>

record 'st registry =
  factories :: "string \<rightharpoonup> ('st \<Rightarrow> (error + unit) \<times> 'st)"
  schemas :: "string \<rightharpoonup> string"

definition REGISTER_CLASS ::
  "string \<Rightarrow> ('st \<Rightarrow> (error + unit) \<times> 'st) \<Rightarrow> 'st registry \<Rightarrow> 'st registry" where
  "REGISTER_CLASS name factory reg = reg\<lparr>factories := (factories reg)(name \<mapsto> factory)\<rparr>"

definition REGISTER_COMMAND_LINE_PARAMETER ::
  "string \<Rightarrow> string \<Rightarrow> 'st registry \<Rightarrow> 'st registry" where
  "REGISTER_COMMAND_LINE_PARAMETER name parameter reg =
     reg\<lparr>schemas := (schemas reg)(name \<mapsto> parameter)\<rparr>"

text \<open>
  The second macro argument in the source: six adjacent string literals, which the
  compiler concatenates (the escape \<^verbatim>\<open>\"\<close> is the character \<^verbatim>\<open>"\<close>).
\<close>

definition NullEvaluator_parameter :: string where
  \<open>NullEvaluator_parameter =
     ''{"type":"Evaluator",'' @
     ''"name":"NullEvaluator",'' @
     ''"parameter":{'' @
     ''"-f":"Frequency"'' @
     ''}}'' @
     ''''\<close>

text \<open>The two registrations of the translation unit, in the order they are written.\<close>

definition static_init :: "'st registry \<Rightarrow> 'st registry" where
  "static_init reg =
     REGISTER_COMMAND_LINE_PARAMETER ''NullEvaluator'' NullEvaluator_parameter
       (REGISTER_CLASS ''NullEvaluator'' NullEvaluator_ctor reg)"

subsection \<open>JSON text\<close>

text \<open>
  What "the JSON object" of the specification means for a string: JSON values built from
  strings and objects, and their compact text (no white space, members in order). A string
  is written between double quotes, with a backslash before a double quote or a backslash;
  control characters are not treated, the schema has none.
\<close>

datatype json = JString string | JObject "(string \<times> json) list"

definition escape :: "char \<Rightarrow> string" where
  "escape c = (if c = CHR 0x22 \<or> c = CHR 0x5C then [CHR 0x5C, c] else [c])"

definition quoted :: "string \<Rightarrow> string" where
  "quoted s = CHR 0x22 # concat (map escape s) @ [CHR 0x22]"

fun commas :: "string list \<Rightarrow> string" where
  "commas [] = []"
| "commas [x] = x"
| "commas (x # y # ys) = x @ '','' @ commas (y # ys)"

fun render :: "json \<Rightarrow> string" where
  "render (JString s) = quoted s"
| "render (JObject ms) =
     ''{'' @ commas (map (\<lambda>(k, v). quoted k @ '':'' @ render v) ms) @ ''}''"

section \<open>Properties\<close>

subsection \<open>Calls leave the state as it was\<close>

lemma invoke_returns: "\<exists>v. invoke c \<sigma> = (Inr v, \<sigma>)"
  by (cases c) (simp_all add: addResult_def getMeasures_def toString_def)

lemma run_returns: "run cs \<sigma> = Inr \<sigma>"
proof (induction cs)
  case Nil
  show ?case by simp
next
  case (Cons c cs)
  obtain v where "invoke c \<sigma> = (Inr v, \<sigma>)"
    using invoke_returns [of c \<sigma>] by (rule exE)
  with Cons.IH show ?case by simp
qed

text \<open>
  C1. Whatever results were added before, in whatever number, \<open>getMeasures\<close> returns no
  \<^verbatim>\<open>Measures\<close> object: the calls to \<open>addResult\<close> all return, and in the state they
  leave \<open>getMeasures\<close> returns the null pointer.
\<close>

theorem getMeasures_absent:
  "\<exists>\<sigma>'. run (map (\<lambda>(inst, scores). AddResult inst scores) results) \<sigma> = Inr \<sigma>'
       \<and> fst (getMeasures \<sigma>') = Inr nullptr"
  by (simp add: run_returns getMeasures_def)

text \<open>
  C2. Whatever calls to the public member functions came before, \<open>toString\<close> returns the
  string of one space.
\<close>

theorem toString_single_space:
  "\<exists>\<sigma>'. run cs \<sigma> = Inr \<sigma>' \<and> fst (toString \<sigma>') = Inr '' ''"
  by (simp add: run_returns toString_def)

text \<open>
  C3. \<open>addResult\<close> changes nothing, for every instance and every score array: the state
  after the call is the state before it, and what the two observers \<open>getMeasures\<close> and
  \<open>toString\<close> report after the call is what they reported before.
\<close>

theorem addResult_no_op:
  "snd (addResult inst scores \<sigma>) = \<sigma>
   \<and> getMeasures (snd (addResult inst scores \<sigma>)) = getMeasures \<sigma>
   \<and> toString (snd (addResult inst scores \<sigma>)) = toString \<sigma>"
  by (simp add: addResult_def)

text \<open>
  C4. No public member function fails: \<open>addResult\<close>, \<open>getMeasures\<close> and \<open>toString\<close>
  each return normally (\<open>Inr\<close>) for every argument and in every state, and so does every
  sequence of calls to them. None of the definitions is recursive or partial, so each call
  ends.
\<close>

theorem operations_never_fail:
  "(\<exists>\<sigma>'. addResult inst scores \<sigma> = (Inr (), \<sigma>'))
   \<and> (\<exists>p \<sigma>'. getMeasures \<sigma> = (Inr p, \<sigma>'))
   \<and> (\<exists>s \<sigma>'. toString \<sigma> = (Inr s, \<sigma>'))
   \<and> (\<exists>v \<sigma>'. invoke c \<sigma> = (Inr v, \<sigma>'))
   \<and> (\<exists>\<sigma>'. run cs \<sigma> = Inr \<sigma>')"
proof -
  have "\<exists>v \<sigma>'. invoke c \<sigma> = (Inr v, \<sigma>')"
    using invoke_returns [of c \<sigma>] by blast
  then show ?thesis
    by (simp add: addResult_def getMeasures_def toString_def run_returns)
qed

text \<open>
  C5. The scenario: a constructed evaluator to which three results are added, with any
  instances and score arrays, returns the null pointer from \<open>getMeasures\<close> and then the
  one-space string from \<open>toString\<close>.
\<close>

theorem scenario_result:
  "scenario i1 s1 i2 s2 i3 s3 \<sigma> = Inr (nullptr, '' '')"
  by (simp add: scenario_def NullEvaluator_ctor_def run_returns getMeasures_def
      toString_def)

text \<open>
  C6. The evaluator is inert. Constructor, \<open>addResult\<close>, \<open>getMeasures\<close>, \<open>toString\<close> and
  destructor each leave the state they find; the states an object can reach from a state
  \<open>\<sigma>\<close> by calls to its member functions are \<open>\<sigma>\<close> alone; and what a call returns is the
  same in every state.
\<close>

theorem single_inert_state:
  "snd (NullEvaluator_ctor \<sigma>) = \<sigma>
   \<and> snd (addResult inst scores \<sigma>) = \<sigma>
   \<and> snd (getMeasures \<sigma>) = \<sigma>
   \<and> snd (toString \<sigma>) = \<sigma>
   \<and> snd (NullEvaluator_dtor \<sigma>) = \<sigma>
   \<and> {\<sigma>'. \<exists>cs :: ('inst, 'scores) call list. run cs \<sigma> = Inr \<sigma>'} = {\<sigma>}
   \<and> (\<forall>(c :: ('inst, 'scores) call) (\<sigma>1 :: 'st) (\<sigma>2 :: 'st).
        fst (invoke c \<sigma>1) = fst (invoke c \<sigma>2))"
proof -
  have reach: "{\<sigma>'. \<exists>cs :: ('inst, 'scores) call list. run cs \<sigma> = Inr \<sigma>'} = {\<sigma>}"
    by (auto simp add: run_returns)
  have same: "fst (invoke c \<sigma>1) = fst (invoke c \<sigma>2)"
    for c :: "('inst, 'scores) call" and \<sigma>1 \<sigma>2 :: 'st
    by (cases c) (simp_all add: addResult_def getMeasures_def toString_def)
  show ?thesis
    using reach same
    by (simp add: NullEvaluator_ctor_def NullEvaluator_dtor_def addResult_def
        getMeasures_def toString_def)
qed

subsection \<open>Registration\<close>

text \<open>
  C7. The translation unit registers the class under the name \<^verbatim>\<open>NullEvaluator\<close>, and
  the schema registered under that name is the string written out below: the compact text
  of a JSON object of type \<^verbatim>\<open>Evaluator\<close> and name \<^verbatim>\<open>NullEvaluator\<close> whose
  \<^verbatim>\<open>parameter\<close> object has the single member \<^verbatim>\<open>-f\<close>, named \<^verbatim>\<open>Frequency\<close>.
\<close>

theorem registration:
  \<open>factories (static_init reg) ''NullEvaluator'' = Some NullEvaluator_ctor
   \<and> schemas (static_init reg) ''NullEvaluator''
       = Some ''{"type":"Evaluator","name":"NullEvaluator","parameter":{"-f":"Frequency"}}''
   \<and> NullEvaluator_parameter
       = render (JObject
           [(''type'', JString ''Evaluator''),
            (''name'', JString ''NullEvaluator''),
            (''parameter'', JObject [(''-f'', JString ''Frequency'')])])\<close>
  by (simp add: static_init_def REGISTER_CLASS_def REGISTER_COMMAND_LINE_PARAMETER_def
      NullEvaluator_parameter_def quoted_def escape_def)

subsection \<open>The pointer returned and the special members\<close>

text \<open>
  C9. What \<open>getMeasures\<close> returns is the null pointer itself: it is the address of no
  object, and in every store a caller that dereferences it finds no \<^verbatim>\<open>Measures\<close>
  object, an empty one included.
\<close>

theorem getMeasures_nullptr:
  "fst (getMeasures \<sigma>) = Inr nullptr
   \<and> (\<forall>a. fst (getMeasures \<sigma>) \<noteq> Inr (Ptr a))
   \<and> (\<forall>h :: 'm store. \<exists>p. fst (getMeasures \<sigma>) = Inr p \<and> deref h p = None)"
  by (simp add: getMeasures_def)

text \<open>
  C10. The bodies of the constructor and of the destructor do nothing: both return
  normally and leave the state, the members of the object included, as they found it.
\<close>

theorem ctor_dtor_no_op:
  "NullEvaluator_ctor \<sigma> = (Inr (), \<sigma>) \<and> NullEvaluator_dtor \<sigma> = (Inr (), \<sigma>)"
  by (simp add: NullEvaluator_ctor_def NullEvaluator_dtor_def)

end
